theory Spec2Isabelle
  imports Complex_Main "HOL-Library.AList"
begin

section \<open>Python values and exceptions\<close>

text \<open>
  Provider responses, formatted requests and keyword arguments are dynamically typed
  Python values. \<open>PDict\<close> is a dict with string keys (insertion order kept, a key looked
  up with \<open>map_of\<close>), \<open>PObj\<close> an object read by attribute access.
\<close>

datatype pyval =
    PNone
  | PStr string
  | PInt int
  | PFloat real
  | PList "pyval list"
  | PDict "(string \<times> pyval) list"
  | PObj "(string \<times> pyval) list"

text \<open>
  The exceptions the modelled code can raise, all of them subclasses of \<open>Exception\<close>.
  \<open>Raised cls msg\<close> is an exception of a class defined outside this repository (the
  provider libraries' errors, \<open>OSError\<close>).
\<close>

datatype exc =
    KeyError pyval
  | IndexError
  | TypeError
  | NameError string
  | ImportError string
  | AttributeError string
  | Raised string string

text \<open>\<open>v[k]\<close> for a string \<open>k\<close>.\<close>

fun getitem_key :: "pyval \<Rightarrow> string \<Rightarrow> exc + pyval" where
  "getitem_key (PDict kvs) k =
     (case map_of kvs k of None \<Rightarrow> Inl (KeyError (PStr k)) | Some v \<Rightarrow> Inr v)"
| "getitem_key _ k = Inl TypeError"

text \<open>\<open>v[i]\<close> for an integer \<open>i\<close>: negative indices count from the end.\<close>

definition list_index :: "'a list \<Rightarrow> int \<Rightarrow> exc + 'a" where
  "list_index xs i =
     (if 0 \<le> i \<and> i < int (length xs) then Inr (xs ! nat i)
      else if i < 0 \<and> - int (length xs) \<le> i then Inr (xs ! nat (int (length xs) + i))
      else Inl IndexError)"

fun getitem_idx :: "pyval \<Rightarrow> int \<Rightarrow> exc + pyval" where
  "getitem_idx (PList xs) i = list_index xs i"
| "getitem_idx (PStr s) i =
     (case list_index s i of Inl e \<Rightarrow> Inl e | Inr c \<Rightarrow> Inr (PStr [c]))"
| "getitem_idx (PDict kvs) i = Inl (KeyError (PInt i))"
| "getitem_idx _ i = Inl TypeError"

text \<open>\<open>v.name\<close>.\<close>

fun getattr :: "pyval \<Rightarrow> string \<Rightarrow> exc + pyval" where
  "getattr (PObj kvs) a =
     (case map_of kvs a of None \<Rightarrow> Inl (AttributeError a) | Some v \<Rightarrow> Inr v)"
| "getattr _ a = Inl (AttributeError a)"

text \<open>Sequencing of a computation that may raise.\<close>

definition bind_exc :: "exc + 'a \<Rightarrow> ('a \<Rightarrow> exc + 'b) \<Rightarrow> exc + 'b" where
  "bind_exc r f = (case r of Inl e \<Rightarrow> Inl e | Inr v \<Rightarrow> f v)"

text \<open>A list comprehension whose element expression may raise: the first exception wins.\<close>

fun map_exc :: "('a \<Rightarrow> exc + 'b) \<Rightarrow> 'a list \<Rightarrow> exc + 'b list" where
  "map_exc f [] = Inr []"
| "map_exc f (x # xs) =
     (case f x of
        Inl e \<Rightarrow> Inl e
      | Inr y \<Rightarrow> (case map_exc f xs of Inl e \<Rightarrow> Inl e | Inr ys \<Rightarrow> Inr (y # ys)))"

text \<open>\<open>sep.join(xs)\<close>.\<close>

fun join :: "string \<Rightarrow> string list \<Rightarrow> string" where
  "join sep [] = []"
| "join sep [x] = x"
| "join sep (x # y # ys) = x @ sep @ join sep (y # ys)"

section \<open>Messages, environment, clients\<close>

text \<open>
  A message is a dict from field name to text, such as
  \<open>{"role": "user", "content": user_message}\<close>; \<open>m["role"]\<close> raises \<open>KeyError\<close> when the
  field is missing. \<open>msg_val\<close> is the same dict seen as a Python value.
\<close>

type_synonym message = "(string \<times> string) list"

definition msg_get :: "message \<Rightarrow> string \<Rightarrow> exc + string" where
  "msg_get m k = (case map_of m k of None \<Rightarrow> Inl (KeyError (PStr k)) | Some v \<Rightarrow> Inr v)"

definition msg_val :: "message \<Rightarrow> pyval" where
  "msg_val m = PDict (map (\<lambda>kv. (fst kv, PStr (snd kv))) m)"

text \<open>\<open>os.environ\<close>, and the names of the importable packages.\<close>

type_synonym env = "string \<rightharpoonup> string"

definition environ_get :: "env \<Rightarrow> string \<Rightarrow> exc + string" where
  "environ_get env k = (case env k of None \<Rightarrow> Inl (KeyError (PStr k)) | Some v \<Rightarrow> Inr v)"

definition py_import :: "string list \<Rightarrow> string \<Rightarrow> exc + unit" where
  "py_import installed name =
     (if name \<in> set installed then Inr () else Inl (ImportError name))"

text \<open>
  The client objects of the three provider libraries, each built from an API key, and the
  requests the adapters submit through them. The remote service is a parameter: it maps
  a client and a request to the provider's response or to the exception the library
  raises.
\<close>

datatype client = OpenAI string | GenaiClient string | Anthropic string

type_synonym kwargs = "(string \<times> pyval) list"

text \<open>
  The arguments of each request, in the order of the constructor:
  \<open>chat.completions.create(model, messages, **kwargs)\<close>,
  \<open>completions.create(model, prompt, **kwargs)\<close>, \<open>chats.create(model)\<close>,
  \<open>chat.send_message(message)\<close> on a chat returned by \<open>chats.create\<close>,
  \<open>messages.create(model, messages, max_tokens, **kwargs)\<close> and
  \<open>audio.speech.with_streaming_response.create(model, voice, input, **kwargs)\<close>.
\<close>

datatype request =
    ChatCompletionsCreate pyval pyval kwargs
  | CompletionsCreate pyval pyval kwargs
  | ChatsCreate pyval
  | ChatSendMessage pyval pyval
  | MessagesCreate pyval pyval int kwargs
  | AudioSpeechCreate pyval pyval pyval kwargs

type_synonym remote = "client \<Rightarrow> request \<Rightarrow> exc + pyval"

section \<open>providers.py\<close>

subsection \<open>OpenAIChatCompletions\<close>

definition OpenAIChatCompletions_client_factory :: "string list \<Rightarrow> env \<Rightarrow> exc + client" where
  "OpenAIChatCompletions_client_factory installed env =
     bind_exc (py_import installed ''openai'') (\<lambda>_.
     bind_exc (environ_get env ''OPENAI_API_KEY'') (\<lambda>k. Inr (OpenAI k)))"

definition OpenAIChatCompletions_call ::
  "remote \<Rightarrow> client \<Rightarrow> pyval \<Rightarrow> pyval \<Rightarrow> kwargs \<Rightarrow> exc + pyval" where
  "OpenAIChatCompletions_call rem cl messages model kw =
     (case cl of
        OpenAI _ \<Rightarrow> rem cl (ChatCompletionsCreate model messages kw)
      | _ \<Rightarrow> Inl (AttributeError ''chat''))"

definition OpenAIChatCompletions_extract :: "pyval \<Rightarrow> exc + pyval" where
  "OpenAIChatCompletions_extract response =
     bind_exc (getitem_key response ''choices'') (\<lambda>cs.
     bind_exc (getitem_idx cs 0) (\<lambda>c.
     bind_exc (getitem_key c ''message'') (\<lambda>m.
     getitem_key m ''content'')))"

definition role_content :: "message \<Rightarrow> exc + pyval" where
  "role_content m =
     bind_exc (msg_get m ''role'') (\<lambda>r.
     bind_exc (msg_get m ''content'') (\<lambda>c.
     Inr (PDict [(''role'', PStr r), (''content'', PStr c)])))"

definition OpenAIChatCompletions_format_messages :: "message list \<Rightarrow> exc + pyval" where
  "OpenAIChatCompletions_format_messages history =
     bind_exc (map_exc role_content history) (\<lambda>rs. Inr (PList rs))"

subsection \<open>OpenAIResponses\<close>

text \<open>
  The names bound at module level in providers.py: the module imports \<open>os\<close> and defines
  its four classes and one function. A name used in a method body and bound neither
  there nor here raises \<open>NameError\<close> when the expression is evaluated.
\<close>

definition providers_globals :: "string list" where
  "providers_globals =
     [''os'', ''OpenAIChatCompletions'', ''OpenAIResponses'', ''GeminiChatCompletions'',
      ''AnthropicChatCompletions'', ''build_default_registry'']"

definition global_name :: "string \<Rightarrow> exc + unit" where
  "global_name n = (if n \<in> set providers_globals then Inr () else Inl (NameError n))"

text \<open>
  \<open>return OpenAI(api_key=os.environ["OPENAI_API_KEY"])\<close>: the callee \<open>OpenAI\<close> is
  evaluated before the argument.
\<close>

definition OpenAIResponses_client_factory :: "string list \<Rightarrow> env \<Rightarrow> exc + client" where
  "OpenAIResponses_client_factory installed env =
     bind_exc (global_name ''OpenAI'') (\<lambda>_.
     bind_exc (environ_get env ''OPENAI_API_KEY'') (\<lambda>k. Inr (OpenAI k)))"

text \<open>
  \<open>create(model=model, prompt=formatted_prompt, **kwargs)\<close>: a \<open>prompt\<close> among the
  keyword arguments is a repeated keyword, which Python rejects with \<open>TypeError\<close>.
\<close>

definition OpenAIResponses_call ::
  "remote \<Rightarrow> client \<Rightarrow> pyval \<Rightarrow> pyval \<Rightarrow> kwargs \<Rightarrow> exc + pyval" where
  "OpenAIResponses_call rem cl formatted_prompt model kw =
     (case cl of
        OpenAI _ \<Rightarrow>
          (if ''prompt'' \<in> fst ` set kw then Inl TypeError
           else rem cl (CompletionsCreate model formatted_prompt kw))
      | _ \<Rightarrow> Inl (AttributeError ''completions''))"

definition OpenAIResponses_extract :: "pyval \<Rightarrow> exc + pyval" where
  "OpenAIResponses_extract response =
     bind_exc (getattr response ''choices'') (\<lambda>cs.
     bind_exc (getitem_idx cs 0) (\<lambda>c.
     getattr c ''text''))"

definition prompt_line :: "message \<Rightarrow> exc + string" where
  "prompt_line m =
     bind_exc (msg_get m ''role'') (\<lambda>r.
     bind_exc (msg_get m ''content'') (\<lambda>c.
     Inr (r @ '': '' @ c)))"

definition OpenAIResponses_format_messages :: "message list \<Rightarrow> exc + pyval" where
  "OpenAIResponses_format_messages history =
     bind_exc (map_exc prompt_line history) (\<lambda>ls. Inr (PStr (join [CHR 0x0A] ls)))"

subsection \<open>GeminiChatCompletions\<close>

definition GeminiChatCompletions_client_factory :: "string list \<Rightarrow> env \<Rightarrow> exc + client" where
  "GeminiChatCompletions_client_factory installed env =
     bind_exc (py_import installed ''google.genai'') (\<lambda>_.
     bind_exc (environ_get env ''GEMINI_API_KEY'') (\<lambda>k. Inr (GenaiClient k)))"

text \<open>
  The chat is created first; only then is \<open>messages[-1]["content"]\<close> evaluated and sent.
  \<open>kwargs\<close> is accepted and not used.
\<close>

definition GeminiChatCompletions_call ::
  "remote \<Rightarrow> client \<Rightarrow> pyval \<Rightarrow> pyval \<Rightarrow> kwargs \<Rightarrow> exc + pyval" where
  "GeminiChatCompletions_call rem cl messages model kw =
     (case cl of
        GenaiClient _ \<Rightarrow>
          bind_exc (rem cl (ChatsCreate model)) (\<lambda>chat.
          bind_exc (getitem_idx messages (- 1)) (\<lambda>last_message.
          bind_exc (getitem_key last_message ''content'') (\<lambda>current_message.
          rem cl (ChatSendMessage chat current_message))))
      | _ \<Rightarrow> Inl (AttributeError ''chats''))"

definition GeminiChatCompletions_extract :: "pyval \<Rightarrow> exc + pyval" where
  "GeminiChatCompletions_extract response =
     bind_exc (getitem_key response ''candidates'') (\<lambda>cs.
     bind_exc (getitem_idx cs 0) (\<lambda>c.
     bind_exc (getitem_key c ''content'') (\<lambda>ct.
     bind_exc (getitem_key ct ''parts'') (\<lambda>ps.
     bind_exc (getitem_idx ps 0) (\<lambda>p.
     getitem_key p ''text'')))))"

definition GeminiChatCompletions_format_messages :: "message list \<Rightarrow> exc + pyval" where
  "GeminiChatCompletions_format_messages history = Inr (PList (map msg_val history))"

subsection \<open>AnthropicChatCompletions\<close>

definition AnthropicChatCompletions_client_factory :: "string list \<Rightarrow> env \<Rightarrow> exc + client" where
  "AnthropicChatCompletions_client_factory installed env =
     bind_exc (py_import installed ''anthropic'') (\<lambda>_.
     bind_exc (environ_get env ''ANTHROPIC_API_KEY'') (\<lambda>k. Inr (Anthropic k)))"

text \<open>
  \<open>create(model=model, messages=messages, max_tokens=1000, **kwargs)\<close>: a \<open>max_tokens\<close>
  among the keyword arguments is a repeated keyword, which Python rejects with
  \<open>TypeError\<close>.
\<close>

definition AnthropicChatCompletions_call ::
  "remote \<Rightarrow> client \<Rightarrow> pyval \<Rightarrow> pyval \<Rightarrow> kwargs \<Rightarrow> exc + pyval" where
  "AnthropicChatCompletions_call rem cl messages model kw =
     (case cl of
        Anthropic _ \<Rightarrow>
          (if ''max_tokens'' \<in> fst ` set kw then Inl TypeError
           else rem cl (MessagesCreate model messages 1000 kw))
      | _ \<Rightarrow> Inl (AttributeError ''messages''))"

definition AnthropicChatCompletions_extract :: "pyval \<Rightarrow> exc + pyval" where
  "AnthropicChatCompletions_extract response =
     bind_exc (getitem_key response ''content'') (\<lambda>cs.
     bind_exc (getitem_idx cs 0) (\<lambda>c.
     getitem_key c ''text''))"

definition AnthropicChatCompletions_format_messages :: "message list \<Rightarrow> exc + pyval" where
  "AnthropicChatCompletions_format_messages history =
     bind_exc (map_exc role_content history) (\<lambda>rs. Inr (PList rs))"

section \<open>The provider registry\<close>

text \<open>
  A registry entry offers some of the four operations of the provider contract under
  their names; \<open>None\<close> is an operation the entry does not have. The type of \<open>call\<close> is a
  parameter, since the two registries of the library bind it differently: a method of a
  provider class takes the client, a lambda of the table in \<open>DashAIChat.__init__\<close>
  reads \<open>self.client\<close>. Arguments after the first are passed by name. Python binds
  them before the body runs: a name that repeats a parameter already bound by position
  raises \<open>TypeError\<close> (\<open>rebinds\<close>), and \<open>with_model\<close> binds the required parameter
  \<open>model\<close>, raising \<open>TypeError\<close> when it is not given.
\<close>

record 'c adapter =
  client_factory :: "(string list \<Rightarrow> env \<Rightarrow> exc + client) option"
  call :: "'c option"
  extract_response :: "(pyval \<Rightarrow> exc + pyval) option"
  format_messages :: "(message list \<Rightarrow> exc + pyval) option"

type_synonym method_call = "remote \<Rightarrow> client \<Rightarrow> pyval \<Rightarrow> kwargs \<Rightarrow> exc + pyval"

type_synonym lambda_call = "remote \<Rightarrow> pyval \<Rightarrow> kwargs \<Rightarrow> exc + pyval"

definition rebinds :: "string list \<Rightarrow> kwargs \<Rightarrow> bool" where
  "rebinds bound kw = list_ex (\<lambda>name. name \<in> fst ` set kw) bound"

definition with_model ::
  "string list \<Rightarrow> (pyval \<Rightarrow> kwargs \<Rightarrow> exc + pyval) \<Rightarrow> kwargs \<Rightarrow> exc + pyval" where
  "with_model bound f kw =
     (if rebinds bound kw then Inl TypeError
      else case map_of kw ''model'' of
             None \<Rightarrow> Inl TypeError
           | Some m \<Rightarrow> f m (AList.delete ''model'' kw))"

definition provides :: "'a option \<Rightarrow> bool" where
  "provides f = (case f of None \<Rightarrow> False | Some _ \<Rightarrow> True)"

definition implements_all :: "'c adapter \<Rightarrow> bool" where
  "implements_all a =
     (provides (client_factory a) \<and> provides (call a) \<and>
      provides (extract_response a) \<and> provides (format_messages a))"

text \<open>Instances of the provider classes.\<close>

definition OpenAIChatCompletions :: "method_call adapter" where
  "OpenAIChatCompletions =
     \<lparr> client_factory = Some OpenAIChatCompletions_client_factory,
       call = Some (\<lambda>rem cl messages.
                with_model [''self'', ''client'', ''messages'']
                  (OpenAIChatCompletions_call rem cl messages)),
       extract_response = Some OpenAIChatCompletions_extract,
       format_messages = Some OpenAIChatCompletions_format_messages \<rparr>"

definition OpenAIResponses :: "method_call adapter" where
  "OpenAIResponses =
     \<lparr> client_factory = Some OpenAIResponses_client_factory,
       call = Some (\<lambda>rem cl prompt.
                with_model [''self'', ''client'', ''formatted_prompt'']
                  (OpenAIResponses_call rem cl prompt)),
       extract_response = Some OpenAIResponses_extract,
       format_messages = Some OpenAIResponses_format_messages \<rparr>"

definition GeminiChatCompletions :: "method_call adapter" where
  "GeminiChatCompletions =
     \<lparr> client_factory = Some GeminiChatCompletions_client_factory,
       call = Some (\<lambda>rem cl messages.
                with_model [''self'', ''client'', ''messages'']
                  (GeminiChatCompletions_call rem cl messages)),
       extract_response = Some GeminiChatCompletions_extract,
       format_messages = Some GeminiChatCompletions_format_messages \<rparr>"

definition AnthropicChatCompletions :: "method_call adapter" where
  "AnthropicChatCompletions =
     \<lparr> client_factory = Some AnthropicChatCompletions_client_factory,
       call = Some (\<lambda>rem cl messages.
                with_model [''self'', ''client'', ''messages'']
                  (AnthropicChatCompletions_call rem cl messages)),
       extract_response = Some AnthropicChatCompletions_extract,
       format_messages = Some AnthropicChatCompletions_format_messages \<rparr>"

text \<open>
  Registry keys: the table of \<open>build_default_registry\<close> is keyed by strings, the table
  of \<open>DashAIChat.__init__\<close> by pairs of strings. A registry is a dict in insertion order.
\<close>

datatype regkey = KStr string | KPair string string

type_synonym 'c registry = "(regkey \<times> 'c adapter) list"

definition build_default_registry :: "method_call registry" where
  "build_default_registry =
     [(KStr ''openai:chat.completions'', OpenAIChatCompletions),
      (KStr ''gemini:chat.completions'', GeminiChatCompletions),
      (KStr ''anthropic:chat.completions'', AnthropicChatCompletions)]"

text \<open>
  \<open>self.AI_REGISTRY\<close> as \<open>DashAIChat.__init__\<close> builds it. Each value is a dict with the
  keys \<open>call\<close>, \<open>extract\<close> and \<open>format_messages\<close>. The lambdas read \<open>self.client\<close>, an
  attribute the class does not set: \<open>self_client\<close> is its value, \<open>None\<close> when absent.
\<close>

definition self_client_get :: "client option \<Rightarrow> exc + client" where
  "self_client_get self_client =
     (case self_client of None \<Rightarrow> Inl (AttributeError ''client'') | Some cl \<Rightarrow> Inr cl)"

definition completions_extract :: "pyval \<Rightarrow> exc + pyval" where
  "completions_extract resp =
     bind_exc (getitem_key resp ''choices'') (\<lambda>cs.
     bind_exc (getitem_idx cs 0) (\<lambda>c.
     getitem_key c ''text''))"

definition AI_REGISTRY :: "client option \<Rightarrow> lambda_call registry" where
  "AI_REGISTRY self_client =
     [(KPair ''openai'' ''chat.completions'',
       \<lparr> client_factory = None,
         call = Some (\<lambda>rem messages. with_model [''messages''] (\<lambda>model kw.
                  bind_exc (self_client_get self_client) (\<lambda>cl.
                  OpenAIChatCompletions_call rem cl messages model kw))),
         extract_response = Some OpenAIChatCompletions_extract,
         format_messages = Some OpenAIChatCompletions_format_messages \<rparr>),
      (KPair ''openai'' ''completions'',
       \<lparr> client_factory = None,
         call = Some (\<lambda>rem prompt. with_model [''prompt''] (\<lambda>model kw.
                  bind_exc (self_client_get self_client) (\<lambda>cl.
                  OpenAIResponses_call rem cl prompt model kw))),
         extract_response = Some completions_extract,
         format_messages = Some OpenAIResponses_format_messages \<rparr>)]"

text \<open>\<open>registry[key]\<close> and \<open>registry[key] = adapter\<close>.\<close>

definition registry_getitem :: "(regkey \<times> 'v) list \<Rightarrow> regkey \<Rightarrow> exc + 'v" where
  "registry_getitem reg k =
     (case map_of reg k of
        None \<Rightarrow> Inl (KeyError (case k of KStr s \<Rightarrow> PStr s | KPair v a \<Rightarrow> PList [PStr v, PStr a]))
      | Some a \<Rightarrow> Inr a)"

definition registry_setitem :: "(regkey \<times> 'v) list \<Rightarrow> regkey \<Rightarrow> 'v \<Rightarrow> (regkey \<times> 'v) list" where
  "registry_setitem reg k a = AList.update k a reg"

text \<open>
  The key form \<open><vendor>:<api>\<close>: a string with one colon, a non-empty vendor before it
  and a non-empty API name after it.
\<close>

definition is_vendor_api :: "string \<Rightarrow> bool" where
  "is_vendor_api s =
     (case dropWhile (\<lambda>c. c \<noteq> CHR '':'') s of
        [] \<Rightarrow> False
      | _ # api \<Rightarrow>
          takeWhile (\<lambda>c. c \<noteq> CHR '':'') s \<noteq> [] \<and> api \<noteq> [] \<and> CHR '':'' \<notin> set api)"

fun key_is_vendor_api :: "regkey \<Rightarrow> bool" where
  "key_is_vendor_api (KStr s) = is_vendor_api s"
| "key_is_vendor_api (KPair v a) = False"

section \<open>Running an adapter\<close>

text \<open>
  The four operations in sequence, as the provider contract describes them: build the
  client, format the history, submit the request for a model, extract the display
  string from the response. An operation the adapter lacks raises \<open>AttributeError\<close>.
\<close>

definition get_method :: "string \<Rightarrow> 'a option \<Rightarrow> exc + 'a" where
  "get_method name f = (case f of None \<Rightarrow> Inl (AttributeError name) | Some g \<Rightarrow> Inr g)"

definition make_client :: "'c adapter \<Rightarrow> string list \<Rightarrow> env \<Rightarrow> exc + client" where
  "make_client a installed env =
     bind_exc (get_method ''client_factory'' (client_factory a)) (\<lambda>cf. cf installed env)"

definition run_adapter ::
  "method_call adapter \<Rightarrow> string list \<Rightarrow> env \<Rightarrow> remote \<Rightarrow> message list \<Rightarrow> pyval \<Rightarrow> exc + pyval" where
  "run_adapter a installed env rem history model =
     bind_exc (make_client a installed env) (\<lambda>cl.
     bind_exc (get_method ''format_messages'' (format_messages a)) (\<lambda>fm.
     bind_exc (fm history) (\<lambda>messages.
     bind_exc (get_method ''call'' (call a)) (\<lambda>c.
     bind_exc (c rem cl messages [(''model'', model)]) (\<lambda>response.
     bind_exc (get_method ''extract'' (extract_response a)) (\<lambda>ex.
     ex response))))))"


text \<open>
  Response shapes of the three registered providers: a chat completion carries its text
  at \<open>choices[0].message.content\<close>, a Gemini response at
  \<open>candidates[0].content.parts[0].text\<close>, an Anthropic message at \<open>content[0].text\<close>.
\<close>

definition field :: "string \<Rightarrow> pyval \<Rightarrow> pyval option" where
  "field k v = (case v of PDict kvs \<Rightarrow> map_of kvs k | _ \<Rightarrow> None)"

definition first_item :: "pyval \<Rightarrow> pyval option" where
  "first_item v = (case v of PList (x # _) \<Rightarrow> Some x | _ \<Rightarrow> None)"

definition openai_chat_text :: "pyval \<Rightarrow> pyval option" where
  "openai_chat_text r =
     Option.bind (Option.bind (Option.bind (field ''choices'' r) first_item)
       (field ''message'')) (field ''content'')"

definition gemini_text :: "pyval \<Rightarrow> pyval option" where
  "gemini_text r =
     Option.bind (Option.bind (Option.bind (Option.bind (Option.bind
       (field ''candidates'' r) first_item) (field ''content'')) (field ''parts''))
       first_item) (field ''text'')"

definition anthropic_text :: "pyval \<Rightarrow> pyval option" where
  "anthropic_text r =
     Option.bind (Option.bind (field ''content'' r) first_item) (field ''text'')"

definition is_message :: "message \<Rightarrow> bool" where
  "is_message m = (map_of m ''role'' \<noteq> None \<and> map_of m ''content'' \<noteq> None)"

text \<open>The text of a field of a message, empty when the message lacks it.\<close>

definition field_of :: "message \<Rightarrow> string \<Rightarrow> string" where
  "field_of m k = (case map_of m k of None \<Rightarrow> [] | Some v \<Rightarrow> v)"

section \<open>The conversation store\<close>

text \<open>
  Modelled from the spec: the methods \<open>add_message\<close> and the reload of a conversation
  belong to the chat class the examples extend and are not among the sources. The spec
  describes the store as one file per conversation, at a path derived from the base
  directory, the user identifier and the conversation identifier, holding an
  append-only ordered log of messages that is read in full on every access.
\<close>

type_synonym path = "string list"

type_synonym store = "path \<rightharpoonup> message list"

definition convo_path :: "string \<Rightarrow> string \<Rightarrow> string \<Rightarrow> path" where
  "convo_path base user_id convo_id = [base, user_id, convo_id]"

definition load_messages :: "store \<Rightarrow> string \<Rightarrow> string \<Rightarrow> string \<Rightarrow> message list" where
  "load_messages st base user_id convo_id =
     (case st (convo_path base user_id convo_id) of None \<Rightarrow> [] | Some ms \<Rightarrow> ms)"

definition add_message :: "store \<Rightarrow> string \<Rightarrow> string \<Rightarrow> string \<Rightarrow> message \<Rightarrow> store" where
  "add_message st base user_id convo_id msg =
     st(convo_path base user_id convo_id \<mapsto> load_messages st base user_id convo_id @ [msg])"

fun add_messages :: "store \<Rightarrow> string \<Rightarrow> string \<Rightarrow> string \<Rightarrow> message list \<Rightarrow> store" where
  "add_messages st base user_id convo_id [] = st"
| "add_messages st base user_id convo_id (m # ms) =
     add_messages (add_message st base user_id convo_id m) base user_id convo_id ms"

section \<open>The speech examples\<close>

text \<open>
  The chat object of the examples: its base directory, the conversation files, the
  registry \<open>self.AI_REGISTRY\<close>, the default provider and model, and, in the advanced
  example, the attribute \<open>_current_tts_settings\<close> (\<open>None\<close> when it is not set).
\<close>

record chat =
  base_dir :: string
  files :: store
  registry :: "method_call registry"
  provider_spec :: string
  provider_model :: string
  current_tts_settings :: "kwargs option"




subsection \<open>OpenAITextToSpeech\<close>

text \<open>
  \<open>client_factory\<close> returns \<open>openai.OpenAI()\<close>; what the library's constructor does
  without a key is the parameter \<open>openai_default\<close>. \<open>call\<close> has the defaults
  \<open>model="gpt-4o-mini-tts"\<close> and \<open>voice="alloy"\<close> and passes
  \<open>create(model=model, voice=voice, input=text, **kwargs)\<close>: an \<open>input\<close> among the
  keyword arguments is a repeated keyword, which Python rejects with \<open>TypeError\<close>.
\<close>

definition kw_get :: "kwargs \<Rightarrow> string \<Rightarrow> pyval \<Rightarrow> pyval" where
  "kw_get kw k d = (case map_of kw k of None \<Rightarrow> d | Some v \<Rightarrow> v)"

definition OpenAITextToSpeech_call :: method_call where
  "OpenAITextToSpeech_call rem cl text kw =
     (if rebinds [''self'', ''client'', ''text''] kw then Inl TypeError
      else case cl of
             OpenAI _ \<Rightarrow>
               (if ''input'' \<in> fst ` set kw then Inl TypeError
                else rem cl (AudioSpeechCreate (kw_get kw ''model'' (PStr ''gpt-4o-mini-tts''))
                               (kw_get kw ''voice'' (PStr ''alloy'')) text
                               (AList.delete ''voice'' (AList.delete ''model'' kw))))
           | _ \<Rightarrow> Inl (AttributeError ''audio''))"

definition OpenAITextToSpeech :: "(env \<Rightarrow> exc + client) \<Rightarrow> method_call adapter" where
  "OpenAITextToSpeech openai_default =
     \<lparr> client_factory = Some (\<lambda>installed env. openai_default env),
       call = Some OpenAITextToSpeech_call,
       extract_response = Some (\<lambda>response. Inr response),
       format_messages = Some (\<lambda>history. Inr (PList (map msg_val history))) \<rparr>"

subsection \<open>10_generate_speech.py\<close>







subsection \<open>11_generate_speech_advanced.py\<close>









section \<open>Sample inputs\<close>

text \<open>
  A response that has the text \<open>hi there\<close> at the place each of the three providers
  puts it, a remote service that always answers with it, and one that always fails.
\<close>

definition sample_response :: pyval where
  "sample_response =
     PDict [(''choices'', PList [PDict [(''message'', PDict [(''content'', PStr ''hi there'')])]]),
            (''candidates'',
               PList [PDict [(''content'',
                 PDict [(''parts'', PList [PDict [(''text'', PStr ''hi there'')]])])]]),
            (''content'', PList [PDict [(''text'', PStr ''hi there'')]])]"

definition sample_remote :: remote where
  "sample_remote cl req = Inr sample_response"


text \<open>
  A chat object whose registry has the speech provider under \<open>openai:tts\<close>, and the
  outside world of a run in which every request to the provider fails.
\<close>

definition sample_chat :: chat where
  "sample_chat =
     \<lparr> base_dir = ''chat_data'',
       files = Map.empty,
       registry =
         registry_setitem build_default_registry (KStr ''openai:tts'')
           (OpenAITextToSpeech (\<lambda>env. Inr (OpenAI ''sk-1''))),
       provider_spec = ''openai:chat.completions'',
       provider_model = ''gpt-4o'',
       current_tts_settings =
         Some [(''model'', PStr ''gpt-4o-mini-tts''), (''voice'', PStr ''alloy''),
               (''speed'', PFloat 1), (''response_format'', PStr ''mp3''),
               (''instructions'', PNone)] \<rparr>"


text \<open>
  The speech provider as the examples register it, the response object of the speech
  service, and a remote service that always answers with it.
\<close>

definition sample_speech_provider :: "method_call adapter" where
  "sample_speech_provider = OpenAITextToSpeech (\<lambda>env. Inr (OpenAI ''sk-1''))"

definition speech_response :: pyval where
  "speech_response = PObj [(''status_code'', PInt 200)]"

definition speech_remote :: remote where
  "speech_remote cl req = Inr speech_response"

section \<open>Properties\<close>

subsection \<open>Auxiliary facts\<close>

lemma bind_exc_simps:
  "bind_exc (Inl e) f = Inl e"
  "bind_exc (Inr v) f = f v"
  by (simp_all add: bind_exc_def)

lemma list_index_last: "xs \<noteq> [] \<Longrightarrow> list_index xs (- 1) = Inr (last xs)"
  by (cases xs rule: rev_cases) (simp_all add: list_index_def nth_append)

lemma list_index_nil: "list_index [] i = Inl IndexError"
  by (simp add: list_index_def)

lemma list_index_0: "list_index (x # xs) 0 = Inr x"
  by (simp add: list_index_def)

lemma load_add_message:
  "load_messages (add_message st b u c m) b u c = load_messages st b u c @ [m]"
  by (simp add: load_messages_def add_message_def)

lemma load_add_messages:
  "load_messages (add_messages st b u c ms) b u c = load_messages st b u c @ ms"
  by (induction ms arbitrary: st) (simp_all add: load_add_message)

subsection \<open>The registries\<close>

text \<open>
  Claim C1, as the code has it: every adapter of the registry that
  \<open>build_default_registry\<close> returns implements all four capabilities; every entry of
  the table built in \<open>DashAIChat.__init__\<close> provides \<open>call\<close>, \<open>extract\<close> and
  \<open>format_messages\<close> and no \<open>client_factory\<close>.
\<close>

theorem registry_capabilities:
  "list_all (\<lambda>kv. implements_all (snd kv)) build_default_registry \<and>
   list_all (\<lambda>kv. provides (call (snd kv)) \<and> provides (extract_response (snd kv)) \<and>
                   provides (format_messages (snd kv)) \<and>
                   \<not> provides (client_factory (snd kv))) (AI_REGISTRY self_client)"
  by (simp add: build_default_registry_def implements_all_def provides_def AI_REGISTRY_def
      OpenAIChatCompletions_def GeminiChatCompletions_def AnthropicChatCompletions_def)

text \<open>
  Claim C1 as stated fails on the table of \<open>DashAIChat.__init__\<close>: neither of its two
  entries implements all four capabilities.
\<close>

theorem registry_capabilities_counterexample:
  "map implements_all (map snd (AI_REGISTRY None)) = [False, False]"
  by (simp add: AI_REGISTRY_def implements_all_def provides_def)

text \<open>
  Claim C2, as the code has it: every key of the registry that \<open>build_default_registry\<close>
  returns is a string of the form \<open><vendor>:<api>\<close>; the keys of the table built in
  \<open>DashAIChat.__init__\<close> are the pairs \<open>("openai", "chat.completions")\<close> and
  \<open>("openai", "completions")\<close>, whose components joined by a colon have that form.
\<close>

theorem registry_key_form:
  "list_all key_is_vendor_api (map fst build_default_registry) \<and>
   map fst (AI_REGISTRY self_client) =
     [KPair ''openai'' ''chat.completions'', KPair ''openai'' ''completions''] \<and>
   list_all (\<lambda>k. case k of KPair v a \<Rightarrow> is_vendor_api (v @ '':'' @ a) | KStr _ \<Rightarrow> False)
     (map fst (AI_REGISTRY self_client))"
  by (simp add: build_default_registry_def is_vendor_api_def AI_REGISTRY_def)

text \<open>
  Claim C2 as stated fails on the table of \<open>DashAIChat.__init__\<close>: neither of its keys
  is a string of the form \<open><vendor>:<api>\<close>.
\<close>

theorem registry_key_form_counterexample:
  "map key_is_vendor_api (map fst (AI_REGISTRY None)) = [False, False]"
  by (simp add: AI_REGISTRY_def)

subsection \<open>The conversation store\<close>

text \<open>
  Claim C3: for every user identifier, conversation identifier and list of messages,
  appending the messages in order to a conversation that holds none and reloading the
  conversation yields the same messages in the same order.
\<close>

theorem append_reload_roundtrip:
  "load_messages st base user_id convo_id = [] \<Longrightarrow>
   load_messages (add_messages st base user_id convo_id ms) base user_id convo_id = ms"
  by (simp add: load_add_messages)

theorem append_reload_roundtrip_witness:
  "load_messages Map.empty ''chat_data'' ''u1'' ''001'' = [] \<and>
   load_messages
     (add_messages Map.empty ''chat_data'' ''u1'' ''001''
        [[(''role'', ''user''), (''content'', ''hi'')],
         [(''role'', ''assistant''), (''content'', ''hello'')]])
     ''chat_data'' ''u1'' ''001'' =
     [[(''role'', ''user''), (''content'', ''hi'')],
      [(''role'', ''assistant''), (''content'', ''hello'')]]"
  using append_reload_roundtrip [of Map.empty "''chat_data''" "''u1''" "''001''"
      "[[(''role'', ''user''), (''content'', ''hi'')],
        [(''role'', ''assistant''), (''content'', ''hello'')]]"]
  by (simp add: load_messages_def)

subsection \<open>Client construction\<close>

text \<open>
  Claim C10: \<open>OpenAIResponses.client_factory\<close> raises \<open>NameError\<close> on every invocation,
  the name \<open>OpenAI\<close> not being bound in its scope, and the key \<open>openai:responses\<close> is
  absent from the registry that \<open>build_default_registry\<close> returns.
\<close>

theorem OpenAIResponses_client_factory_NameError:
  "OpenAIResponses_client_factory installed env = Inl (NameError ''OpenAI'') \<and>
   map_of build_default_registry (KStr ''openai:responses'') = None \<and>
   registry_getitem build_default_registry (KStr ''openai:responses'') =
     Inl (KeyError (PStr ''openai:responses''))"
  by (simp add: OpenAIResponses_client_factory_def global_name_def providers_globals_def
      bind_exc_simps build_default_registry_def registry_getitem_def)

subsection \<open>Formatting the history\<close>

lemma role_content_ok:
  "is_message m \<Longrightarrow> role_content m =
     Inr (PDict [(''role'', PStr (field_of m ''role'')),
                 (''content'', PStr (field_of m ''content''))])"
  by (auto simp: is_message_def role_content_def msg_get_def bind_exc_simps field_of_def)

lemma prompt_line_ok:
  "is_message m \<Longrightarrow> prompt_line m = Inr (field_of m ''role'' @ '': '' @ field_of m ''content'')"
  by (auto simp: is_message_def prompt_line_def msg_get_def bind_exc_simps field_of_def)

lemma map_exc_ok:
  "(\<And>x. x \<in> set xs \<Longrightarrow> f x = Inr (g x)) \<Longrightarrow> map_exc f xs = Inr (map g xs)"
  by (induction xs) simp_all

lemma map_exc_role_content:
  assumes "list_all is_message history"
  shows "map_exc role_content history =
      Inr (map (\<lambda>m. PDict [(''role'', PStr (field_of m ''role'')),
                           (''content'', PStr (field_of m ''content''))]) history)"
proof (rule map_exc_ok)
  fix m assume "m \<in> set history"
  with assms have "is_message m" by (simp add: list_all_iff)
  then show "role_content m =
      Inr (PDict [(''role'', PStr (field_of m ''role'')),
                  (''content'', PStr (field_of m ''content''))])"
    by (rule role_content_ok)
qed

lemma map_exc_prompt_line:
  assumes "list_all is_message history"
  shows "map_exc prompt_line history =
      Inr (map (\<lambda>m. field_of m ''role'' @ '': '' @ field_of m ''content'') history)"
proof (rule map_exc_ok)
  fix m assume "m \<in> set history"
  with assms have "is_message m" by (simp add: list_all_iff)
  then show "prompt_line m = Inr (field_of m ''role'' @ '': '' @ field_of m ''content'')"
    by (rule prompt_line_ok)
qed

text \<open>
  Claim C6: for every history of messages, each with a role and a content,
  \<open>format_messages\<close> of \<open>OpenAIChatCompletions\<close> and of \<open>AnthropicChatCompletions\<close>
  returns the list of role/content records of the messages, one per message in the
  order of the input and with exactly the role and the content of that message, and
  \<open>format_messages\<close> of \<open>OpenAIResponses\<close> returns the single string that joins the
  lines \<open>role: content\<close>, one per message in input order, with newlines.
\<close>

theorem format_messages_shape:
  "list_all is_message history \<Longrightarrow>
   OpenAIChatCompletions_format_messages history =
     Inr (PList (map (\<lambda>m. PDict [(''role'', PStr (field_of m ''role'')),
                               (''content'', PStr (field_of m ''content''))]) history)) \<and>
   AnthropicChatCompletions_format_messages history =
     Inr (PList (map (\<lambda>m. PDict [(''role'', PStr (field_of m ''role'')),
                               (''content'', PStr (field_of m ''content''))]) history)) \<and>
   OpenAIResponses_format_messages history =
     Inr (PStr (join [CHR 0x0A]
       (map (\<lambda>m. field_of m ''role'' @ '': '' @ field_of m ''content'') history)))"
  by (simp add: OpenAIChatCompletions_format_messages_def
      AnthropicChatCompletions_format_messages_def OpenAIResponses_format_messages_def
      map_exc_role_content map_exc_prompt_line bind_exc_simps)

theorem format_messages_shape_witness:
  "list_all is_message
     [[(''role'', ''user''), (''content'', ''hi'')],
      [(''role'', ''assistant''), (''content'', ''yo''), (''audio_file'', ''a.mp3'')]] \<and>
   OpenAIChatCompletions_format_messages
     [[(''role'', ''user''), (''content'', ''hi'')],
      [(''role'', ''assistant''), (''content'', ''yo''), (''audio_file'', ''a.mp3'')]] =
     Inr (PList [PDict [(''role'', PStr ''user''), (''content'', PStr ''hi'')],
                 PDict [(''role'', PStr ''assistant''), (''content'', PStr ''yo'')]]) \<and>
   AnthropicChatCompletions_format_messages
     [[(''role'', ''user''), (''content'', ''hi'')],
      [(''role'', ''assistant''), (''content'', ''yo''), (''audio_file'', ''a.mp3'')]] =
     Inr (PList [PDict [(''role'', PStr ''user''), (''content'', PStr ''hi'')],
                 PDict [(''role'', PStr ''assistant''), (''content'', PStr ''yo'')]]) \<and>
   OpenAIResponses_format_messages
     [[(''role'', ''user''), (''content'', ''hi'')],
      [(''role'', ''assistant''), (''content'', ''yo''), (''audio_file'', ''a.mp3'')]] =
     Inr (PStr (''user: hi'' @ [CHR 0x0A] @ ''assistant: yo''))"
  using format_messages_shape
    [of "[[(''role'', ''user''), (''content'', ''hi'')],
          [(''role'', ''assistant''), (''content'', ''yo''), (''audio_file'', ''a.mp3'')]]"]
  by (simp add: is_message_def field_of_def)

subsection \<open>Client construction from the environment\<close>

text \<open>
  Claim C8: where the provider's package can be imported, \<open>client_factory\<close> of the
  OpenAI, Gemini and Anthropic chat adapters builds a client with the value of
  \<open>OPENAI_API_KEY\<close>, \<open>GEMINI_API_KEY\<close> and \<open>ANTHROPIC_API_KEY\<close> respectively when the
  variable is set, raises \<open>KeyError\<close> for that variable when it is unset, and reads no
  other variable: two environments that agree on the variable give the same result.
\<close>

theorem client_factory_environment:
  "(''openai'' \<in> set installed \<longrightarrow>
      (env ''OPENAI_API_KEY'' = Some k \<longrightarrow>
         OpenAIChatCompletions_client_factory installed env = Inr (OpenAI k)) \<and>
      (env' ''OPENAI_API_KEY'' = None \<longrightarrow>
         OpenAIChatCompletions_client_factory installed env' =
           Inl (KeyError (PStr ''OPENAI_API_KEY'')))) \<and>
   (''google.genai'' \<in> set installed \<longrightarrow>
      (env ''GEMINI_API_KEY'' = Some g \<longrightarrow>
         GeminiChatCompletions_client_factory installed env = Inr (GenaiClient g)) \<and>
      (env' ''GEMINI_API_KEY'' = None \<longrightarrow>
         GeminiChatCompletions_client_factory installed env' =
           Inl (KeyError (PStr ''GEMINI_API_KEY'')))) \<and>
   (''anthropic'' \<in> set installed \<longrightarrow>
      (env ''ANTHROPIC_API_KEY'' = Some a \<longrightarrow>
         AnthropicChatCompletions_client_factory installed env = Inr (Anthropic a)) \<and>
      (env' ''ANTHROPIC_API_KEY'' = None \<longrightarrow>
         AnthropicChatCompletions_client_factory installed env' =
           Inl (KeyError (PStr ''ANTHROPIC_API_KEY'')))) \<and>
   (env1 ''OPENAI_API_KEY'' = env2 ''OPENAI_API_KEY'' \<longrightarrow>
      OpenAIChatCompletions_client_factory installed env1 =
      OpenAIChatCompletions_client_factory installed env2) \<and>
   (env1 ''GEMINI_API_KEY'' = env2 ''GEMINI_API_KEY'' \<longrightarrow>
      GeminiChatCompletions_client_factory installed env1 =
      GeminiChatCompletions_client_factory installed env2) \<and>
   (env1 ''ANTHROPIC_API_KEY'' = env2 ''ANTHROPIC_API_KEY'' \<longrightarrow>
      AnthropicChatCompletions_client_factory installed env1 =
      AnthropicChatCompletions_client_factory installed env2)"
  by (simp add: OpenAIChatCompletions_client_factory_def
      GeminiChatCompletions_client_factory_def AnthropicChatCompletions_client_factory_def
      py_import_def environ_get_def bind_exc_simps)

theorem client_factory_environment_witness:
  "OpenAIChatCompletions_client_factory [''openai'', ''google.genai'', ''anthropic'']
     [''OPENAI_API_KEY'' \<mapsto> ''sk-1'', ''GEMINI_API_KEY'' \<mapsto> ''g-2'',
      ''ANTHROPIC_API_KEY'' \<mapsto> ''a-3''] = Inr (OpenAI ''sk-1'') \<and>
   GeminiChatCompletions_client_factory [''openai'', ''google.genai'', ''anthropic'']
     [''OPENAI_API_KEY'' \<mapsto> ''sk-1'', ''GEMINI_API_KEY'' \<mapsto> ''g-2'',
      ''ANTHROPIC_API_KEY'' \<mapsto> ''a-3''] = Inr (GenaiClient ''g-2'') \<and>
   AnthropicChatCompletions_client_factory [''openai'', ''google.genai'', ''anthropic'']
     [''OPENAI_API_KEY'' \<mapsto> ''sk-1'', ''GEMINI_API_KEY'' \<mapsto> ''g-2'',
      ''ANTHROPIC_API_KEY'' \<mapsto> ''a-3''] = Inr (Anthropic ''a-3'') \<and>
   OpenAIChatCompletions_client_factory [''openai'', ''google.genai'', ''anthropic'']
     Map.empty = Inl (KeyError (PStr ''OPENAI_API_KEY'')) \<and>
   GeminiChatCompletions_client_factory [''openai'', ''google.genai'', ''anthropic'']
     Map.empty = Inl (KeyError (PStr ''GEMINI_API_KEY'')) \<and>
   AnthropicChatCompletions_client_factory [''openai'', ''google.genai'', ''anthropic'']
     Map.empty = Inl (KeyError (PStr ''ANTHROPIC_API_KEY'')) \<and>
   OpenAIChatCompletions_client_factory [''openai'', ''google.genai'', ''anthropic'']
     [''HOME'' \<mapsto> ''/root''] =
   OpenAIChatCompletions_client_factory [''openai'', ''google.genai'', ''anthropic'']
     [''PATH'' \<mapsto> ''/bin'']"
  using client_factory_environment
    [of "[''openai'', ''google.genai'', ''anthropic'']"
        "[''OPENAI_API_KEY'' \<mapsto> ''sk-1'', ''GEMINI_API_KEY'' \<mapsto> ''g-2'',
          ''ANTHROPIC_API_KEY'' \<mapsto> ''a-3'']"
        "''sk-1''" Map.empty "''g-2''" "''a-3''"
        "[''HOME'' \<mapsto> ''/root'']" "[''PATH'' \<mapsto> ''/bin'']"]
  by simp

subsection \<open>The Gemini call\<close>

text \<open>
  Claim C9: \<open>GeminiChatCompletions.call\<close> depends on the message list only through the
  content of its last element: on two non-empty lists whose last elements have the same
  content it gives the same result, for any keyword arguments, and with a Gemini client
  it sends that content to the chat it created; on the empty list it fails, with
  \<open>IndexError\<close> from indexing the last element once the chat is created.
\<close>

theorem gemini_call_last_message_only:
  "(xs \<noteq> [] \<and> ys \<noteq> [] \<and>
    getitem_key (last xs) ''content'' = getitem_key (last ys) ''content'' \<longrightarrow>
      GeminiChatCompletions_call rem cl (PList xs) model kw =
      GeminiChatCompletions_call rem cl (PList ys) model kw') \<and>
   (xs \<noteq> [] \<and> getitem_key (last xs) ''content'' = Inr c \<longrightarrow>
      GeminiChatCompletions_call rem (GenaiClient k) (PList xs) model kw =
        bind_exc (rem (GenaiClient k) (ChatsCreate model))
          (\<lambda>chat. rem (GenaiClient k) (ChatSendMessage chat c))) \<and>
   isl (GeminiChatCompletions_call rem cl (PList []) model kw) \<and>
   (rem (GenaiClient k) (ChatsCreate model) = Inr chat \<longrightarrow>
      GeminiChatCompletions_call rem (GenaiClient k) (PList []) model kw = Inl IndexError)"
proof -
  have same: "GeminiChatCompletions_call rem cl (PList xs) model kw =
      GeminiChatCompletions_call rem cl (PList ys) model kw'"
    if "xs \<noteq> []" "ys \<noteq> []"
       "getitem_key (last xs) ''content'' = getitem_key (last ys) ''content''"
    using that
    by (simp add: GeminiChatCompletions_call_def list_index_last bind_exc_simps
        split: client.splits)
  have sent: "GeminiChatCompletions_call rem (GenaiClient k) (PList xs) model kw =
      bind_exc (rem (GenaiClient k) (ChatsCreate model))
        (\<lambda>chat. rem (GenaiClient k) (ChatSendMessage chat c))"
    if "xs \<noteq> []" "getitem_key (last xs) ''content'' = Inr c"
    using that
    by (simp add: GeminiChatCompletions_call_def list_index_last bind_exc_simps)
  have fails: "isl (GeminiChatCompletions_call rem cl (PList []) model kw)"
    by (simp add: GeminiChatCompletions_call_def list_index_nil bind_exc_def
        split: client.splits sum.splits)
  have index: "GeminiChatCompletions_call rem (GenaiClient k) (PList []) model kw =
      Inl IndexError"
    if "rem (GenaiClient k) (ChatsCreate model) = Inr chat"
    using that
    by (simp add: GeminiChatCompletions_call_def list_index_nil bind_exc_simps)
  from same sent fails index show ?thesis by blast
qed

theorem gemini_call_last_message_only_witness:
  "GeminiChatCompletions_call (\<lambda>cl req. Inr (PList [PStr ''sent'']))
     (GenaiClient ''g-2'')
     (PList [PDict [(''role'', PStr ''user''), (''content'', PStr ''first'')],
             PDict [(''role'', PStr ''assistant''), (''content'', PStr ''reply'')],
             PDict [(''role'', PStr ''user''), (''content'', PStr ''again'')]])
     (PStr ''gemini-pro'') [] =
   GeminiChatCompletions_call (\<lambda>cl req. Inr (PList [PStr ''sent'']))
     (GenaiClient ''g-2'')
     (PList [PDict [(''content'', PStr ''again'')]])
     (PStr ''gemini-pro'') [(''temperature'', PInt 0)] \<and>
   GeminiChatCompletions_call (\<lambda>cl req. Inr (PList [PStr ''sent'']))
     (GenaiClient ''g-2'')
     (PList [PDict [(''role'', PStr ''user''), (''content'', PStr ''first'')],
             PDict [(''role'', PStr ''assistant''), (''content'', PStr ''reply'')],
             PDict [(''role'', PStr ''user''), (''content'', PStr ''again'')]])
     (PStr ''gemini-pro'') [] = Inr (PList [PStr ''sent'']) \<and>
   GeminiChatCompletions_call (\<lambda>cl req. Inr (PList [PStr ''sent'']))
     (GenaiClient ''g-2'') (PList []) (PStr ''gemini-pro'') [] = Inl IndexError"
  using gemini_call_last_message_only
    [of "[PDict [(''role'', PStr ''user''), (''content'', PStr ''first'')],
          PDict [(''role'', PStr ''assistant''), (''content'', PStr ''reply'')],
          PDict [(''role'', PStr ''user''), (''content'', PStr ''again'')]]"
        "[PDict [(''content'', PStr ''again'')]]"
        "\<lambda>cl req. Inr (PList [PStr ''sent''])" "GenaiClient ''g-2''"
        "PStr ''gemini-pro''" "[]" "[(''temperature'', PInt 0)]"
        "PStr ''again''" "''g-2''" "PList [PStr ''sent'']"]
  by (auto simp: bind_exc_simps)

subsection \<open>Overwriting a registry entry\<close>

lemma getitem_setitem: "registry_getitem (registry_setitem reg k a) k = Inr a"
  by (simp add: registry_getitem_def registry_setitem_def update_conv')






subsection \<open>Errors of the provider call\<close>













subsection \<open>The four operations in sequence\<close>

lemma field_getitem: "field k v = Some x \<Longrightarrow> getitem_key v k = Inr x"
  by (cases v) (simp_all add: field_def)

lemma first_item_getitem: "first_item v = Some x \<Longrightarrow> getitem_idx v 0 = Inr x"
proof (cases v)
  case (PList xs)
  assume "first_item v = Some x"
  with PList show ?thesis
    by (cases xs) (simp_all add: first_item_def list_index_0)
qed (simp_all add: first_item_def)

lemma openai_extract_text:
  "openai_chat_text r = Some v \<Longrightarrow> OpenAIChatCompletions_extract r = Inr v"
  by (auto simp: openai_chat_text_def OpenAIChatCompletions_extract_def bind_eq_Some_conv
      bind_exc_simps field_getitem first_item_getitem)

lemma gemini_extract_text:
  "gemini_text r = Some v \<Longrightarrow> GeminiChatCompletions_extract r = Inr v"
  by (auto simp: gemini_text_def GeminiChatCompletions_extract_def bind_eq_Some_conv
      bind_exc_simps field_getitem first_item_getitem)

lemma anthropic_extract_text:
  "anthropic_text r = Some v \<Longrightarrow> AnthropicChatCompletions_extract r = Inr v"
  by (auto simp: anthropic_text_def AnthropicChatCompletions_extract_def bind_eq_Some_conv
      bind_exc_simps field_getitem first_item_getitem)

lemma with_model_given:
  "''model'' \<notin> set bound \<Longrightarrow> with_model bound f [(''model'', m)] = f m []"
  by (auto simp: with_model_def rebinds_def list_ex_iff AList.delete_eq)

lemma map_of_msg_val:
  "map_of m k = Some c \<Longrightarrow> map_of (map (\<lambda>kv. (fst kv, PStr (snd kv))) m) k = Some (PStr c)"
  by (induction m) (auto split: if_splits)

lemma last_content:
  assumes "history \<noteq> []" and "list_all is_message history"
  shows "getitem_key (last (map msg_val history)) ''content'' =
      Inr (PStr (field_of (last history) ''content''))"
proof -
  from assms have "is_message (last history)"
    by (simp add: list_all_iff)
  then obtain c where c: "map_of (last history) ''content'' = Some c"
    by (auto simp: is_message_def)
  then have "map_of (map (\<lambda>kv. (fst kv, PStr (snd kv))) (last history)) ''content'' =
      Some (PStr c)"
    by (rule map_of_msg_val)
  with c assms(1) show ?thesis
    by (simp add: last_map msg_val_def field_of_def)
qed

text \<open>
  Each chat adapter returns what its provider's response carries at the place of the
  text, for the response the remote service gave to the request the adapter submitted.
\<close>

lemma run_openai:
  assumes "make_client OpenAIChatCompletions installed env = Inr cl"
    and "list_all is_message history"
    and "rem cl (ChatCompletionsCreate model
           (PList (map (\<lambda>m. PDict [(''role'', PStr (field_of m ''role'')),
                                    (''content'', PStr (field_of m ''content''))]) history))
           []) = Inr r"
    and "openai_chat_text r = Some v"
  shows "run_adapter OpenAIChatCompletions installed env rem history model = Inr v"
proof -
  from assms(1) obtain k where k: "cl = OpenAI k"
    by (auto simp: make_client_def OpenAIChatCompletions_def get_method_def bind_exc_def
        OpenAIChatCompletions_client_factory_def split: sum.splits)
  show ?thesis
    using assms(1) assms(3) k openai_extract_text [OF assms(4)]
    by (simp add: run_adapter_def bind_exc_simps OpenAIChatCompletions_def get_method_def
        OpenAIChatCompletions_format_messages_def map_exc_role_content [OF assms(2)]
        with_model_given OpenAIChatCompletions_call_def)
qed

lemma run_anthropic:
  assumes "make_client AnthropicChatCompletions installed env = Inr cl"
    and "list_all is_message history"
    and "rem cl (MessagesCreate model
           (PList (map (\<lambda>m. PDict [(''role'', PStr (field_of m ''role'')),
                                    (''content'', PStr (field_of m ''content''))]) history))
           1000 []) = Inr r"
    and "anthropic_text r = Some v"
  shows "run_adapter AnthropicChatCompletions installed env rem history model = Inr v"
proof -
  from assms(1) obtain k where k: "cl = Anthropic k"
    by (auto simp: make_client_def AnthropicChatCompletions_def get_method_def bind_exc_def
        AnthropicChatCompletions_client_factory_def split: sum.splits)
  show ?thesis
    using assms(1) assms(3) k anthropic_extract_text [OF assms(4)]
    by (simp add: run_adapter_def bind_exc_simps AnthropicChatCompletions_def get_method_def
        AnthropicChatCompletions_format_messages_def map_exc_role_content [OF assms(2)]
        with_model_given AnthropicChatCompletions_call_def)
qed

lemma run_gemini:
  assumes "make_client GeminiChatCompletions installed env = Inr cl"
    and "history \<noteq> []" and "list_all is_message history"
    and "rem cl (ChatsCreate model) = Inr chat"
    and "rem cl (ChatSendMessage chat (PStr (field_of (last history) ''content''))) = Inr r"
    and "gemini_text r = Some v"
  shows "run_adapter GeminiChatCompletions installed env rem history model = Inr v"
proof -
  from assms(1) obtain k where k: "cl = GenaiClient k"
    by (auto simp: make_client_def GeminiChatCompletions_def get_method_def bind_exc_def
        GeminiChatCompletions_client_factory_def split: sum.splits)
  have ne: "map msg_val history \<noteq> []"
    using assms(2) by simp
  show ?thesis
    using assms(1) assms(4) assms(5) k gemini_extract_text [OF assms(6)]
    by (simp add: run_adapter_def bind_exc_simps GeminiChatCompletions_def get_method_def
        GeminiChatCompletions_format_messages_def with_model_given
        GeminiChatCompletions_call_def list_index_last [OF ne]
        last_content [OF assms(2) assms(3)])
qed

text \<open>
  The speech adapter of the examples returns the response itself: its \<open>extract\<close> is the
  identity, and its \<open>call\<close> submits the formatted history as the text to speak.
\<close>

lemma run_text_to_speech:
  assumes "openai_default env = Inr (OpenAI k)"
    and "rem (OpenAI k)
           (AudioSpeechCreate model (PStr ''alloy'') (PList (map msg_val history)) []) = Inr r"
  shows "run_adapter (OpenAITextToSpeech openai_default) installed env rem history model = Inr r"
  using assms
  by (simp add: run_adapter_def make_client_def bind_exc_simps OpenAITextToSpeech_def
      get_method_def OpenAITextToSpeech_call_def rebinds_def kw_get_def)

text \<open>
  Claim C5, as the code has it. The adapters of the registry that
  \<open>build_default_registry\<close> returns are the OpenAI, Gemini and Anthropic chat adapters.
  For each of them the four operations in sequence (build the client, format the
  history, submit the request, extract) return exactly the string that the response of
  the remote service carries at the provider's place of the text, given that the client
  is built, that the history consists of messages with a role and a content (and, for
  Gemini, is not empty), and that the remote service answers the submitted request with
  such a response. \<open>OpenAIChatCompletions.extract\<close> returns the string at
  \<open>choices[0].message.content\<close> of the response and \<open>AnthropicChatCompletions.extract\<close>
  the string at \<open>content[0].text\<close>. For the \<open>OpenAITextToSpeech\<close> adapter that the
  examples register, the four operations in sequence return the response of the remote
  service unchanged, whatever it is.
\<close>

theorem registered_adapters_return_text:
  "map snd build_default_registry =
     [OpenAIChatCompletions, GeminiChatCompletions, AnthropicChatCompletions] \<and>
   (make_client OpenAIChatCompletions installed env = Inr cl1 \<and>
    list_all is_message history \<and>
    rem cl1 (ChatCompletionsCreate model
      (PList (map (\<lambda>m. PDict [(''role'', PStr (field_of m ''role'')),
                               (''content'', PStr (field_of m ''content''))]) history))
      []) = Inr r \<and>
    openai_chat_text r = Some (PStr t) \<longrightarrow>
      run_adapter OpenAIChatCompletions installed env rem history model = Inr (PStr t)) \<and>
   (make_client GeminiChatCompletions installed env = Inr cl2 \<and>
    history \<noteq> [] \<and> list_all is_message history \<and>
    rem cl2 (ChatsCreate model) = Inr chat \<and>
    rem cl2 (ChatSendMessage chat (PStr (field_of (last history) ''content''))) = Inr r \<and>
    gemini_text r = Some (PStr t) \<longrightarrow>
      run_adapter GeminiChatCompletions installed env rem history model = Inr (PStr t)) \<and>
   (make_client AnthropicChatCompletions installed env = Inr cl3 \<and>
    list_all is_message history \<and>
    rem cl3 (MessagesCreate model
      (PList (map (\<lambda>m. PDict [(''role'', PStr (field_of m ''role'')),
                               (''content'', PStr (field_of m ''content''))]) history))
      1000 []) = Inr r \<and>
    anthropic_text r = Some (PStr t) \<longrightarrow>
      run_adapter AnthropicChatCompletions installed env rem history model = Inr (PStr t)) \<and>
   (openai_chat_text r = Some (PStr t) \<longrightarrow>
      OpenAIChatCompletions_extract r = Inr (PStr t)) \<and>
   (anthropic_text r = Some (PStr t) \<longrightarrow>
      AnthropicChatCompletions_extract r = Inr (PStr t)) \<and>
   (openai_default env = Inr (OpenAI k) \<and>
    speech_rem (OpenAI k)
      (AudioSpeechCreate model (PStr ''alloy'') (PList (map msg_val history)) []) =
      Inr speech \<longrightarrow>
      run_adapter (OpenAITextToSpeech openai_default) installed env speech_rem history model =
        Inr speech)"
proof -
  have registered: "map snd build_default_registry =
      [OpenAIChatCompletions, GeminiChatCompletions, AnthropicChatCompletions]"
    by (simp add: build_default_registry_def)
  from registered show ?thesis
    by (simp add: run_openai run_gemini run_anthropic run_text_to_speech
        openai_extract_text anthropic_extract_text)
qed

theorem registered_adapters_return_text_witness:
  "openai_chat_text sample_response = Some (PStr ''hi there'') \<and>
   gemini_text sample_response = Some (PStr ''hi there'') \<and>
   anthropic_text sample_response = Some (PStr ''hi there'') \<and>
   run_adapter OpenAIChatCompletions [''openai'', ''google.genai'', ''anthropic'']
     [''OPENAI_API_KEY'' \<mapsto> ''sk-1'', ''GEMINI_API_KEY'' \<mapsto> ''g-2'',
      ''ANTHROPIC_API_KEY'' \<mapsto> ''a-3'']
     sample_remote [[(''role'', ''user''), (''content'', ''hello'')]] (PStr ''some-model'') =
     Inr (PStr ''hi there'') \<and>
   run_adapter GeminiChatCompletions [''openai'', ''google.genai'', ''anthropic'']
     [''OPENAI_API_KEY'' \<mapsto> ''sk-1'', ''GEMINI_API_KEY'' \<mapsto> ''g-2'',
      ''ANTHROPIC_API_KEY'' \<mapsto> ''a-3'']
     sample_remote [[(''role'', ''user''), (''content'', ''hello'')]] (PStr ''some-model'') =
     Inr (PStr ''hi there'') \<and>
   run_adapter AnthropicChatCompletions [''openai'', ''google.genai'', ''anthropic'']
     [''OPENAI_API_KEY'' \<mapsto> ''sk-1'', ''GEMINI_API_KEY'' \<mapsto> ''g-2'',
      ''ANTHROPIC_API_KEY'' \<mapsto> ''a-3'']
     sample_remote [[(''role'', ''user''), (''content'', ''hello'')]] (PStr ''some-model'') =
     Inr (PStr ''hi there'') \<and>
   OpenAIChatCompletions_extract sample_response = Inr (PStr ''hi there'') \<and>
   AnthropicChatCompletions_extract sample_response = Inr (PStr ''hi there'') \<and>
   run_adapter sample_speech_provider [''openai'', ''google.genai'', ''anthropic'']
     [''OPENAI_API_KEY'' \<mapsto> ''sk-1'', ''GEMINI_API_KEY'' \<mapsto> ''g-2'',
      ''ANTHROPIC_API_KEY'' \<mapsto> ''a-3'']
     speech_remote [[(''role'', ''user''), (''content'', ''hello'')]] (PStr ''some-model'') =
     Inr speech_response"
proof -
  let ?installed = "[''openai'', ''google.genai'', ''anthropic'']"
  let ?env = "[''OPENAI_API_KEY'' \<mapsto> ''sk-1'', ''GEMINI_API_KEY'' \<mapsto> ''g-2'',
               ''ANTHROPIC_API_KEY'' \<mapsto> ''a-3'']"
  let ?history = "[[(''role'', ''user''), (''content'', ''hello'')]]"
  have c1: "make_client OpenAIChatCompletions ?installed ?env = Inr (OpenAI ''sk-1'')"
    by (simp add: make_client_def OpenAIChatCompletions_def get_method_def bind_exc_simps
        OpenAIChatCompletions_client_factory_def py_import_def environ_get_def)
  have c2: "make_client GeminiChatCompletions ?installed ?env = Inr (GenaiClient ''g-2'')"
    by (simp add: make_client_def GeminiChatCompletions_def get_method_def bind_exc_simps
        GeminiChatCompletions_client_factory_def py_import_def environ_get_def)
  have c3: "make_client AnthropicChatCompletions ?installed ?env = Inr (Anthropic ''a-3'')"
    by (simp add: make_client_def AnthropicChatCompletions_def get_method_def bind_exc_simps
        AnthropicChatCompletions_client_factory_def py_import_def environ_get_def)
  have msgs: "list_all is_message ?history" "?history \<noteq> []"
    by (simp_all add: is_message_def)
  have answer: "sample_remote cl req = Inr sample_response" for cl req
    by (simp add: sample_remote_def)
  have o: "openai_chat_text sample_response = Some (PStr ''hi there'')"
    by (simp add: sample_response_def openai_chat_text_def field_def first_item_def)
  have g: "gemini_text sample_response = Some (PStr ''hi there'')"
    by (simp add: sample_response_def gemini_text_def field_def first_item_def)
  have a: "anthropic_text sample_response = Some (PStr ''hi there'')"
    by (simp add: sample_response_def anthropic_text_def field_def first_item_def)
  have d: "(\<lambda>env. Inr (OpenAI ''sk-1'')) ?env = (Inr (OpenAI ''sk-1'') :: exc + client)"
    by simp
  have s: "speech_remote cl req = Inr speech_response" for cl req
    by (simp add: speech_remote_def)
  from registered_adapters_return_text
    [where installed = ?installed and env = ?env and ?cl1.0 = "OpenAI ''sk-1''"
       and ?cl2.0 = "GenaiClient ''g-2''" and ?cl3.0 = "Anthropic ''a-3''"
       and history = ?history and rem = sample_remote and model = "PStr ''some-model''"
       and r = sample_response and t = "''hi there''" and chat = sample_response
       and openai_default = "\<lambda>env. Inr (OpenAI ''sk-1'')" and k = "''sk-1''"
       and speech_rem = speech_remote and speech = speech_response]
    c1 c2 c3 msgs answer o g a d s
  show ?thesis
    by (simp add: sample_speech_provider_def)
qed

text \<open>
  Claim C5 as stated fails on the speech adapter that the examples register under
  \<open>openai:tts\<close>: with a client, a message list and the response of the speech service,
  the four operations in sequence return that response, an object and not a string.
\<close>

theorem registered_adapters_return_text_counterexample:
  "registry_getitem (registry sample_chat) (KStr ''openai:tts'') = Inr sample_speech_provider \<and>
   run_adapter sample_speech_provider [''openai''] [''OPENAI_API_KEY'' \<mapsto> ''sk-1'']
     speech_remote [[(''role'', ''user''), (''content'', ''hello'')]]
     (PStr ''gpt-4o-mini-tts'') = Inr (PObj [(''status_code'', PInt 200)])"
  by (simp add: sample_chat_def sample_speech_provider_def getitem_setitem run_adapter_def
      make_client_def bind_exc_simps OpenAITextToSpeech_def get_method_def
      OpenAITextToSpeech_call_def rebinds_def kw_get_def speech_remote_def
      speech_response_def)

end
